theory Spec2Isabelle
  imports Complex_Main "HOL-Library.List_Lexorder" "HOL-Library.Char_ord"
begin

section \<open>Lightcurve statistics: the model layer of lcanalyzer\<close>

text \<open>
  The module \<^verbatim>\<open>lcanalyzer/models.py\<close> consists of three column reducers
  (\<^verbatim>\<open>mean_mag\<close>, \<^verbatim>\<open>max_mag\<close>, \<^verbatim>\<open>min_mag\<close>), the aggregator \<^verbatim>\<open>calc_stats\<close>
  and the normaliser \<^verbatim>\<open>normalize_lc\<close>. All of them are one-liners over a
  pandas data frame, so the embedding has two layers: the pandas operations they call
  (column lookup, the NaN-skipping reductions, arithmetic of a frame or a series with a
  scalar, \<^verbatim>\<open>fillna\<close>, \<^verbatim>\<open>DataFrame.from_records\<close>), written out as HOL functions,
  and the five functions of the module, written over that layer exactly as the source
  composes them. \<^verbatim>\<open>load_dataset\<close> only reads a file into a frame and is not part
  of the model: every function below starts from a frame in memory.

  Numbers. A cell of a numeric column is a 64-bit float. The model keeps the special
  values of IEEE arithmetic (NaN and the two infinities) with their arithmetic and
  their comparisons, and takes the finite values as real numbers: the rounding of a
  finite result and the overflow of a finite result to an infinity are abstracted.
  Signed zeros are identified.
\<close>

subsection \<open>Floats\<close>

datatype float64 = NaN | NInf | Fin real | PInf

fun isna :: "float64 \<Rightarrow> bool" where
  "isna NaN = True"
| "isna _ = False"

text \<open>The comparison \<^verbatim>\<open><=\<close> of floats: false as soon as one side is NaN.\<close>

fun fle :: "float64 \<Rightarrow> float64 \<Rightarrow> bool" where
  "fle NaN _ = False"
| "fle _ NaN = False"
| "fle NInf _ = True"
| "fle _ PInf = True"
| "fle (Fin x) (Fin y) = (x \<le> y)"
| "fle (Fin x) NInf = False"
| "fle PInf _ = False"

fun fneg :: "float64 \<Rightarrow> float64" where
  "fneg NaN = NaN"
| "fneg NInf = PInf"
| "fneg PInf = NInf"
| "fneg (Fin x) = Fin (- x)"

fun fadd :: "float64 \<Rightarrow> float64 \<Rightarrow> float64" where
  "fadd NaN _ = NaN"
| "fadd _ NaN = NaN"
| "fadd PInf NInf = NaN"
| "fadd NInf PInf = NaN"
| "fadd PInf _ = PInf"
| "fadd _ PInf = PInf"
| "fadd NInf _ = NInf"
| "fadd _ NInf = NInf"
| "fadd (Fin x) (Fin y) = Fin (x + y)"

definition fsub :: "float64 \<Rightarrow> float64 \<Rightarrow> float64" where
  "fsub a b = fadd a (fneg b)"

text \<open>
  True division. A finite value over zero is an infinity of the sign of the numerator
  (pandas and numpy do not raise there), zero over zero and infinity over infinity are
  NaN.
\<close>

fun fdiv :: "float64 \<Rightarrow> float64 \<Rightarrow> float64" where
  "fdiv NaN _ = NaN"
| "fdiv _ NaN = NaN"
| "fdiv (Fin x) (Fin y) =
     (if y = 0 then (if x = 0 then NaN else if 0 < x then PInf else NInf)
      else Fin (x / y))"
| "fdiv (Fin x) _ = Fin 0"
| "fdiv PInf (Fin y) = (if 0 \<le> y then PInf else NInf)"
| "fdiv NInf (Fin y) = (if 0 \<le> y then NInf else PInf)"
| "fdiv _ _ = NaN"

text \<open>
  The binary maximum and minimum that numpy's \<^verbatim>\<open>max\<close> and \<^verbatim>\<open>min\<close> fold over
  an array: they propagate NaN.
\<close>

definition maximum :: "float64 \<Rightarrow> float64 \<Rightarrow> float64" where
  "maximum a b = (if isna a \<or> isna b then NaN else if fle a b then b else a)"

definition minimum :: "float64 \<Rightarrow> float64 \<Rightarrow> float64" where
  "minimum a b = (if isna a \<or> isna b then NaN else if fle a b then a else b)"

subsection \<open>Series, frames and errors\<close>

text \<open>
  A column is typed as a whole, as the columns that \<^verbatim>\<open>read_csv\<close> produces are:
  numeric (floats, NaN for a missing observation) or text. A frame is the list of its
  named columns, in column order; column names are looked up from the left. A scalar, the
  result of a reduction, is a float or a string.
\<close>

datatype column = Numeric "float64 list" | Text "string list"

datatype scalar = Number float64 | Word string

type_synonym frame = "(string \<times> column) list"

datatype error = KeyError | TypeError

fun column_length :: "column \<Rightarrow> nat" where
  "column_length (Numeric vs) = length vs"
| "column_length (Text ss) = length ss"

text \<open>\<^verbatim>\<open>data[mag_col]\<close>: a missing column name raises KeyError.\<close>

definition getitem :: "frame \<Rightarrow> string \<Rightarrow> error + column" where
  "getitem data mag_col =
     (case map_of data mag_col of None \<Rightarrow> Inl KeyError | Some col \<Rightarrow> Inr col)"

subsection \<open>The reductions of a series\<close>

text \<open>
  \<^verbatim>\<open>Series.max()\<close>, \<^verbatim>\<open>Series.min()\<close> and \<^verbatim>\<open>Series.mean()\<close> are called with
  their defaults, so with \<^verbatim>\<open>skipna=True\<close>. pandas implements them in
  \<^verbatim>\<open>core/nanops.py\<close>: an empty array gives NaN; otherwise the NaN entries are
  overwritten by a neutral fill value (minus infinity for the maximum, plus infinity for
  the minimum, zero for the sum), numpy reduces the filled array, and the result is
  replaced by NaN when fewer than one entry was not NaN. The mean is the sum of the
  filled array over the number of entries that are not NaN.
\<close>

definition putmask :: "float64 \<Rightarrow> float64 list \<Rightarrow> float64 list" where
  "putmask fill_value vs = map (\<lambda>v. if isna v then fill_value else v) vs"

definition count_notna :: "float64 list \<Rightarrow> nat" where
  "count_notna vs = length (filter (\<lambda>v. \<not> isna v) vs)"

fun nanmax :: "float64 list \<Rightarrow> float64" where
  "nanmax [] = NaN"
| "nanmax (v # vs) =
     (case putmask NInf (v # vs) of
        [] \<Rightarrow> NaN
      | w # ws \<Rightarrow> if count_notna (v # vs) < 1 then NaN else fold (\<lambda>x acc. maximum acc x) ws w)"

fun nanmin :: "float64 list \<Rightarrow> float64" where
  "nanmin [] = NaN"
| "nanmin (v # vs) =
     (case putmask PInf (v # vs) of
        [] \<Rightarrow> NaN
      | w # ws \<Rightarrow> if count_notna (v # vs) < 1 then NaN else fold (\<lambda>x acc. minimum acc x) ws w)"

definition nanmean :: "float64 list \<Rightarrow> float64" where
  "nanmean vs =
     (let the_sum = fold (\<lambda>x acc. fadd acc x) (putmask (Fin 0) vs) (Fin 0);
          count = count_notna vs
      in if 0 < count then fdiv the_sum (Fin (real count)) else NaN)"

text \<open>
  On a text column the maximum and the minimum compare the strings (Python orders
  strings lexicographically by code point) and the mean raises TypeError, since the
  concatenated strings cannot be converted to a number. An empty column of either type
  reduces to NaN.
\<close>

fun series_max :: "column \<Rightarrow> error + scalar" where
  "series_max (Numeric vs) = Inr (Number (nanmax vs))"
| "series_max (Text []) = Inr (Number NaN)"
| "series_max (Text (s # ss)) = Inr (Word (fold max ss s))"

fun series_min :: "column \<Rightarrow> error + scalar" where
  "series_min (Numeric vs) = Inr (Number (nanmin vs))"
| "series_min (Text []) = Inr (Number NaN)"
| "series_min (Text (s # ss)) = Inr (Word (fold min ss s))"

fun series_mean :: "column \<Rightarrow> error + scalar" where
  "series_mean (Numeric vs) = Inr (Number (nanmean vs))"
| "series_mean (Text []) = Inr (Number NaN)"
| "series_mean (Text (s # ss)) = Inl TypeError"

subsection \<open>Arithmetic with a scalar, fillna\<close>

text \<open>
  \<^verbatim>\<open>series - scalar\<close> and \<^verbatim>\<open>series / scalar\<close> work element by element. A string
  on either side raises TypeError at the first element; a text column without rows has
  no element to fail on.
\<close>

fun series_sub :: "column \<Rightarrow> scalar \<Rightarrow> error + column" where
  "series_sub (Numeric vs) (Number m) = Inr (Numeric (map (\<lambda>v. fsub v m) vs))"
| "series_sub (Numeric vs) (Word s) = Inl TypeError"
| "series_sub (Text []) m = Inr (Text [])"
| "series_sub (Text (s # ss)) m = Inl TypeError"

fun series_div :: "column \<Rightarrow> scalar \<Rightarrow> error + column" where
  "series_div (Numeric vs) (Number m) = Inr (Numeric (map (\<lambda>v. fdiv v m) vs))"
| "series_div (Numeric vs) (Word s) = Inl TypeError"
| "series_div (Text []) m = Inr (Text [])"
| "series_div (Text (s # ss)) m = Inl TypeError"

text \<open>\<^verbatim>\<open>frame - scalar\<close> subtracts the scalar from every column of the frame.\<close>

fun frame_sub :: "frame \<Rightarrow> scalar \<Rightarrow> error + frame" where
  "frame_sub [] m = Inr []"
| "frame_sub ((name, col) # rest) m =
     (case series_sub col m of
        Inl e \<Rightarrow> Inl e
      | Inr col' \<Rightarrow>
          (case frame_sub rest m of
             Inl e \<Rightarrow> Inl e
           | Inr rest' \<Rightarrow> Inr ((name, col') # rest')))"

text \<open>\<^verbatim>\<open>series.fillna(0)\<close> replaces NaN, and only NaN, by zero.\<close>

fun fillna :: "column \<Rightarrow> float64 \<Rightarrow> column" where
  "fillna (Numeric vs) z = Numeric (putmask z vs)"
| "fillna (Text ss) z = Text ss"

subsection \<open>The column reducers\<close>

definition mean_mag :: "frame \<Rightarrow> string \<Rightarrow> error + scalar" where
  "mean_mag data mag_col =
     (case getitem data mag_col of Inl e \<Rightarrow> Inl e | Inr col \<Rightarrow> series_mean col)"

definition max_mag :: "frame \<Rightarrow> string \<Rightarrow> error + scalar" where
  "max_mag data mag_col =
     (case getitem data mag_col of Inl e \<Rightarrow> Inl e | Inr col \<Rightarrow> series_max col)"

definition min_mag :: "frame \<Rightarrow> string \<Rightarrow> error + scalar" where
  "min_mag data mag_col =
     (case getitem data mag_col of Inl e \<Rightarrow> Inl e | Inr col \<Rightarrow> series_min col)"

subsection \<open>The normaliser\<close>

text \<open>
  \<^verbatim>\<open>
  def normalize_lc(df, mag_col):
      min = min_mag(df, mag_col)
      max = max_mag((df - min), mag_col)
      lc = (df[mag_col] - min) / max
      lc = lc.fillna(0)
      return lc
  \<close>
  The second line subtracts the minimum from the whole frame, then reduces the named
  column of the shifted frame.
\<close>

definition normalize_lc :: "frame \<Rightarrow> string \<Rightarrow> error + column" where
  "normalize_lc df mag_col =
     (case min_mag df mag_col of
        Inl e \<Rightarrow> Inl e
      | Inr mn \<Rightarrow>
     (case frame_sub df mn of
        Inl e \<Rightarrow> Inl e
      | Inr shifted \<Rightarrow>
     (case max_mag shifted mag_col of
        Inl e \<Rightarrow> Inl e
      | Inr mx \<Rightarrow>
     (case getitem df mag_col of
        Inl e \<Rightarrow> Inl e
      | Inr col \<Rightarrow>
     (case series_sub col mn of
        Inl e \<Rightarrow> Inl e
      | Inr num \<Rightarrow>
     (case series_div num mx of
        Inl e \<Rightarrow> Inl e
      | Inr lc \<Rightarrow> Inr (fillna lc (Fin 0))))))))"

subsection \<open>The aggregator\<close>

text \<open>
  \<^verbatim>\<open>
  def calc_stats(lc, bands, mag_col):
      stats = {}
      for b in bands:
          stat = {}
          stat["max"] = max_mag(lc[b], mag_col)
          stat["mean"] = mean_mag(lc[b], mag_col)
          stat["min"] = min_mag(lc[b], mag_col)
          stats[b] = stat
      return pd.DataFrame.from_records(stats)
  \<close>
  A Python dict keeps its keys in the order of their first insertion; assigning to a
  key that is already there replaces the value in place.
\<close>

type_synonym 'v dict = "(string \<times> 'v) list"

fun dict_set :: "'v dict \<Rightarrow> string \<Rightarrow> 'v \<Rightarrow> 'v dict" where
  "dict_set [] k v = [(k, v)]"
| "dict_set ((k', v') # d) k v =
     (if k' = k then (k, v) # d else (k', v') # dict_set d k v)"

text \<open>
  The frame that \<^verbatim>\<open>from_records\<close> builds: the labels of its rows and its columns,
  each column holding one scalar per row label.
\<close>

record stats_frame =
  index :: "string list"
  columns :: "(string \<times> scalar list) list"

text \<open>
  \<^verbatim>\<open>DataFrame.from_records(data)\<close> on a dict, with no \<^verbatim>\<open>columns\<close> argument, takes
  \<^verbatim>\<open>sorted(data)\<close> as the column labels and \<^verbatim>\<open>[data[k] for k in columns]\<close> as the
  columns. The columns are dicts here, so the row labels are the union of their keys in
  order of first appearance, and a column holds, for each row label, the dict's value
  (NaN where the dict has no such key). A dict with no key gives a frame with no column
  and no row.
\<close>

fun union_indexes :: "string list \<Rightarrow> string list \<Rightarrow> string list" where
  "union_indexes seen [] = seen"
| "union_indexes seen (k # ks) =
     (if k \<in> set seen then union_indexes seen ks else union_indexes (seen @ [k]) ks)"

definition multiget :: "scalar dict \<Rightarrow> string list \<Rightarrow> scalar list" where
  "multiget d labels =
     map (\<lambda>l. case map_of d l of None \<Rightarrow> Number NaN | Some v \<Rightarrow> v) labels"

definition from_records :: "(scalar dict) dict \<Rightarrow> stats_frame" where
  "from_records data =
     (let cols = sort (map fst data);
          arrays = map (\<lambda>k. case map_of data k of None \<Rightarrow> [] | Some d \<Rightarrow> d) cols;
          idx = union_indexes [] (concat (map (map fst) arrays))
      in \<lparr> index = idx, columns = zip cols (map (\<lambda>d. multiget d idx) arrays) \<rparr>)"

fun calc_stats_loop ::
  "(string \<rightharpoonup> frame) \<Rightarrow> string list \<Rightarrow> string \<Rightarrow> (scalar dict) dict \<Rightarrow> error + (scalar dict) dict"
where
  "calc_stats_loop lc [] mag_col stats = Inr stats"
| "calc_stats_loop lc (b # bands) mag_col stats =
     (case lc b of
        None \<Rightarrow> Inl KeyError
      | Some data \<Rightarrow>
     (case max_mag data mag_col of
        Inl e \<Rightarrow> Inl e
      | Inr mx \<Rightarrow>
     (case mean_mag data mag_col of
        Inl e \<Rightarrow> Inl e
      | Inr me \<Rightarrow>
     (case min_mag data mag_col of
        Inl e \<Rightarrow> Inl e
      | Inr mi \<Rightarrow>
          calc_stats_loop lc bands mag_col
            (dict_set stats b [(''max'', mx), (''mean'', me), (''min'', mi)])))))"

definition calc_stats :: "(string \<rightharpoonup> frame) \<Rightarrow> string list \<Rightarrow> string \<Rightarrow> error + stats_frame" where
  "calc_stats lc bands mag_col =
     (case calc_stats_loop lc bands mag_col [] of
        Inl e \<Rightarrow> Inl e
      | Inr stats \<Rightarrow> Inr (from_records stats))"

subsection \<open>Vocabulary of the statements\<close>

text \<open>
  The finite entries of a numeric column, in order, and the columns that hold no
  infinity (every entry is a finite number or NaN).
\<close>

fun finite_values :: "float64 list \<Rightarrow> real list" where
  "finite_values [] = []"
| "finite_values (Fin x # vs) = x # finite_values vs"
| "finite_values (v # vs) = finite_values vs"

definition no_infinity :: "float64 list \<Rightarrow> bool" where
  "no_infinity vs = (PInf \<notin> set vs \<and> NInf \<notin> set vs)"

text \<open>
  A frame without text cells: each column is numeric, or is a text column without rows.
\<close>

fun no_text :: "column \<Rightarrow> bool" where
  "no_text (Numeric vs) = True"
| "no_text (Text ss) = (ss = [])"

definition numeric_frame :: "frame \<Rightarrow> bool" where
  "numeric_frame df = list_all (\<lambda>(name, col). no_text col) df"

text \<open>A frame with zero rows: every column of its schema is empty.\<close>

definition zero_rows :: "frame \<Rightarrow> bool" where
  "zero_rows df = list_all (\<lambda>(name, col). column_length col = 0) df"


text \<open>
  The values that the last two lines of \<^verbatim>\<open>normalize_lc\<close> compute from a numeric
  magnitude column, once the minimum and the maximum of the shifted column are known.
\<close>

definition scaled :: "float64 list \<Rightarrow> float64 list" where
  "scaled vs =
     putmask (Fin 0)
       (map (\<lambda>v. fdiv (fsub v (nanmin vs)) (nanmax (map (\<lambda>v. fsub v (nanmin vs)) vs))) vs)"

section \<open>Properties\<close>

subsection \<open>The reductions on finite values and NaN\<close>

lemma maximum_Fin [simp]: "maximum (Fin a) (Fin b) = Fin (max a b)"
  by (simp add: maximum_def max_def)

lemma minimum_Fin [simp]: "minimum (Fin a) (Fin b) = Fin (min a b)"
  by (simp add: minimum_def min_def)

lemma maximum_NInf [simp]: "maximum (Fin a) NInf = Fin a" "maximum NInf (Fin a) = Fin a" "maximum NInf NInf = NInf"
  by (simp_all add: maximum_def)

lemma minimum_PInf [simp]: "minimum (Fin a) PInf = Fin a" "minimum PInf (Fin a) = Fin a" "minimum PInf PInf = PInf"
  by (simp_all add: minimum_def)


lemma no_infinity_Nil [simp]: "no_infinity []"
  by (simp add: no_infinity_def)













lemma fadd_NaN_right [simp]: "fadd v NaN = NaN"
  by (cases v) auto

lemma fdiv_NaN_right [simp]: "fdiv v NaN = NaN"
  by (cases v) auto

lemma finite_values_Fin [simp]: "finite_values (map Fin xs) = xs"
  by (induction xs) auto

lemma no_infinity_Fin [simp]: "no_infinity (map Fin xs)"
  by (auto simp: no_infinity_def)


subsection \<open>The mean lies between the extremes\<close>




subsection \<open>The reductions on arbitrary floats\<close>




lemma fle_antisym: "fle a b \<Longrightarrow> fle b a \<Longrightarrow> a = b"
  by (cases a; cases b) auto








subsection \<open>The reductions skip the NaN entries\<close>












subsection \<open>The mean of a column with an infinity\<close>







subsection \<open>What the reducers return\<close>







subsection \<open>The normaliser on a frame without text cells\<close>

lemma numeric_frame_lookup:
  "numeric_frame df \<Longrightarrow> map_of df c = Some col \<Longrightarrow> no_text col"
  by (induction df) (auto simp: numeric_frame_def split: if_splits)

lemma frame_sub_numeric:
  "numeric_frame df \<Longrightarrow>
   \<exists>shifted. frame_sub df (Number m) = Inr shifted
     \<and> (\<forall>c. map_of shifted c =
           map_option (\<lambda>col. case col of Numeric vs \<Rightarrow> Numeric (map (\<lambda>v. fsub v m) vs)
                                | Text ss \<Rightarrow> Text []) (map_of df c))"
proof (induction df)
  case Nil
  then show ?case by simp
next
  case (Cons p df)
  obtain name col where p: "p = (name, col)" by (cases p)
  from Cons.prems p have nt: "no_text col" and nf: "numeric_frame df"
    by (simp_all add: numeric_frame_def)
  from Cons.IH [OF nf] obtain shifted where
    s: "frame_sub df (Number m) = Inr shifted"
    and l: "\<forall>c. map_of shifted c =
           map_option (\<lambda>col. case col of Numeric vs \<Rightarrow> Numeric (map (\<lambda>v. fsub v m) vs)
                                | Text ss \<Rightarrow> Text []) (map_of df c)"
    by blast
  show ?case
  proof (cases col)
    case (Numeric vs)
    with p s l show ?thesis by simp
  next
    case (Text ss)
    with nt have "ss = []" by simp
    with Text p s l show ?thesis by simp
  qed
qed

lemma normalize_lc_KeyError:
  "map_of df c = None \<Longrightarrow> normalize_lc df c = Inl KeyError"
  by (simp add: normalize_lc_def min_mag_def getitem_def)

lemma normalize_lc_Numeric:
  assumes "numeric_frame df" "map_of df c = Some (Numeric vs)"
  shows "normalize_lc df c = Inr (Numeric (scaled vs))"
proof -
  have mn: "min_mag df c = Inr (Number (nanmin vs))"
    using assms(2) by (simp add: min_mag_def getitem_def)
  from frame_sub_numeric [OF assms(1), of "nanmin vs"] obtain shifted where
    s: "frame_sub df (Number (nanmin vs)) = Inr shifted"
    and l: "map_of shifted c = Some (Numeric (map (\<lambda>v. fsub v (nanmin vs)) vs))"
    using assms(2) by auto
  have mx: "max_mag shifted c = Inr (Number (nanmax (map (\<lambda>v. fsub v (nanmin vs)) vs)))"
    using l by (simp add: max_mag_def getitem_def)
  show ?thesis
    using assms(2) by (simp add: normalize_lc_def mn s mx getitem_def o_def scaled_def)
qed

lemma normalize_lc_Text:
  assumes "numeric_frame df" "map_of df c = Some (Text ss)"
  shows "ss = []" "normalize_lc df c = Inr (Text [])"
proof -
  show e: "ss = []"
    using numeric_frame_lookup [OF assms] by simp
  have mn: "min_mag df c = Inr (Number NaN)"
    using assms(2) e by (simp add: min_mag_def getitem_def)
  from frame_sub_numeric [OF assms(1), of NaN] obtain shifted where
    s: "frame_sub df (Number NaN) = Inr shifted"
    and l: "map_of shifted c = Some (Text [])"
    using assms(2) by auto
  have mx: "max_mag shifted c = Inr (Number NaN)"
    using l by (simp add: max_mag_def getitem_def)
  show "normalize_lc df c = Inr (Text [])"
    using assms(2) e by (simp add: normalize_lc_def mn s mx getitem_def)
qed


lemma frame_sub_success:
  "frame_sub df m = Inr shifted \<Longrightarrow> numeric_frame df"
proof (induction df arbitrary: shifted)
  case Nil
  then show ?case by (simp add: numeric_frame_def)
next
  case (Cons p df)
  obtain name col where p: "p = (name, col)" by (cases p)
  from Cons.prems p obtain col' rest where
    c: "series_sub col m = Inr col'" and r: "frame_sub df m = Inr rest"
    by (auto split: sum.splits)
  from c have "no_text col"
    by (cases "(col, m)" rule: series_sub.cases) auto
  with Cons.IH [OF r] p show ?case by (simp add: numeric_frame_def)
qed

lemma frame_sub_error:
  "frame_sub df m = Inl e \<Longrightarrow> e = TypeError"
proof (induction df)
  case Nil
  then show ?case by simp
next
  case (Cons p df)
  obtain name col where p: "p = (name, col)" by (cases p)
  have "e' = TypeError" if "series_sub col m = Inl e'" for e'
    using that by (cases "(col, m)" rule: series_sub.cases) auto
  with Cons p show ?case by (auto split: sum.splits)
qed


lemma normalize_lc_TypeError:
  assumes "\<not> numeric_frame df" "map_of df c = Some col"
  shows "normalize_lc df c = Inl TypeError"
proof -
  obtain mn where mn: "min_mag df c = Inr mn"
    using assms(2) by (cases col rule: series_min.cases) (auto simp: min_mag_def getitem_def)
  obtain e where "frame_sub df mn = Inl e"
    using assms(1) frame_sub_success [of df mn] by (cases "frame_sub df mn") auto
  moreover from this have "e = TypeError" by (rule frame_sub_error)
  ultimately show ?thesis by (simp add: normalize_lc_def mn)
qed




subsection \<open>Columns that normalise to zeros\<close>





subsection \<open>The normaliser on finite values\<close>









text \<open>
  Claim C10. For every table with zero rows that has the magnitude column in its
  schema, \<^verbatim>\<open>normalize_lc\<close> returns an empty sequence and raises no error.
\<close>

theorem normalize_lc_zero_rows:
  assumes "zero_rows df" and "map_of df mag_col = Some col"
  shows "normalize_lc df mag_col = Inr col \<and> column_length col = 0"
proof -
  have len: "column_length c = 0" if "map_of df k = Some c" for k c
    using that assms(1) by (induction df) (auto simp: zero_rows_def split: if_splits)
  have "no_text c" if "column_length c = 0" for c
    using that by (cases c) auto
  then have nf: "numeric_frame df"
    using assms(1) by (induction df) (auto simp: zero_rows_def numeric_frame_def)
  from len [OF assms(2)] have l: "column_length col = 0" .
  show ?thesis
  proof (cases col)
    case (Numeric vs)
    with l have "vs = []" by simp
    with Numeric normalize_lc_Numeric [OF nf, of mag_col vs] assms(2) l show ?thesis
      by (simp add: scaled_def putmask_def)
  next
    case (Text ss)
    with l have "ss = []" by simp
    with Text normalize_lc_Text(2) [OF nf, of mag_col ss] assms(2) l show ?thesis
      by simp
  qed
qed

text \<open>The theorem at a frame with three columns, one of them of text, and no row.\<close>

theorem normalize_lc_zero_rows_witness:
  "normalize_lc [(''time'', Numeric []), (''b'', Numeric []), (''band'', Text [])] ''b''
   = Inr (Numeric [])"
proof -
  let ?df = "[(''time'', Numeric []), (''b'', Numeric []), (''band'', Text [])]"
  have h1: "zero_rows ?df" by (simp add: zero_rows_def)
  have h2: "map_of ?df ''b'' = Some (Numeric [])" by simp
  from normalize_lc_zero_rows [OF h1 h2] show ?thesis by simp
qed

text \<open>
  Claim C8. The result of \<^verbatim>\<open>normalize_lc\<close>, and of each reducer, depends only on the
  named magnitude column: two tables without text cells that agree on column c give the
  same normalised sequence, whatever their other columns hold, although the minimum is
  subtracted from the whole table. The reducers agree on any two tables that agree on
  column c.
\<close>

theorem normalize_lc_column_only:
  assumes "map_of df1 mag_col = map_of df2 mag_col"
  shows "mean_mag df1 mag_col = mean_mag df2 mag_col
       \<and> max_mag df1 mag_col = max_mag df2 mag_col
       \<and> min_mag df1 mag_col = min_mag df2 mag_col
       \<and> (numeric_frame df1 \<and> numeric_frame df2 \<longrightarrow>
            normalize_lc df1 mag_col = normalize_lc df2 mag_col)"
proof -
  have "normalize_lc df1 mag_col = normalize_lc df2 mag_col"
    if n: "numeric_frame df1" "numeric_frame df2"
  proof (cases "map_of df1 mag_col")
    case None
    with assms show ?thesis by (simp add: normalize_lc_KeyError)
  next
    case (Some col)
    show ?thesis
    proof (cases col)
      case (Numeric vs)
      with Some assms n show ?thesis by (simp add: normalize_lc_Numeric)
    next
      case (Text ss)
      with Some assms n show ?thesis by (simp add: normalize_lc_Text(2))
    qed
  qed
  then show ?thesis
    using assms by (simp add: mean_mag_def max_mag_def min_mag_def getitem_def)
qed

text \<open>The theorem at two frames that share column b and differ in the others.\<close>

theorem normalize_lc_column_only_witness:
  "normalize_lc [(''a'', Numeric [Fin 8, Fin 1, NaN]), (''b'', Numeric [Fin 9, Fin 4, Fin 2])] ''b''
   = normalize_lc [(''b'', Numeric [Fin 9, Fin 4, Fin 2]), (''c'', Numeric [PInf, Fin 0, Fin 5]),
        (''d'', Numeric [Fin 3, Fin 3, Fin 3])] ''b''
 \<and> mean_mag [(''a'', Numeric [Fin 8, Fin 1, NaN]), (''b'', Numeric [Fin 9, Fin 4, Fin 2])] ''b''
   = mean_mag [(''b'', Numeric [Fin 9, Fin 4, Fin 2]), (''c'', Numeric [PInf, Fin 0, Fin 5]),
        (''d'', Numeric [Fin 3, Fin 3, Fin 3])] ''b''"
proof -
  let ?df1 = "[(''a'', Numeric [Fin 8, Fin 1, NaN]), (''b'', Numeric [Fin 9, Fin 4, Fin 2])]"
  let ?df2 = "[(''b'', Numeric [Fin 9, Fin 4, Fin 2]), (''c'', Numeric [PInf, Fin 0, Fin 5]),
        (''d'', Numeric [Fin 3, Fin 3, Fin 3])]"
  have h: "map_of ?df1 ''b'' = map_of ?df2 ''b''" by simp
  have n: "numeric_frame ?df1 \<and> numeric_frame ?df2" by (simp add: numeric_frame_def)
  from normalize_lc_column_only [OF h] n show ?thesis by blast
qed





subsection \<open>Normalising twice\<close>

lemma scaled_Nil [simp]: "scaled [] = []"
  by (simp add: scaled_def putmask_def)

lemma length_scaled [simp]: "length (scaled vs) = length vs"
  by (simp add: scaled_def putmask_def)










subsection \<open>The summary table of the aggregator\<close>

lemma dict_set_map_of: "map_of (dict_set d k v) = (map_of d)(k \<mapsto> v)"
  by (induction d) (auto simp: fun_eq_iff)

lemma dict_set_keys: "fst ` set (dict_set d k v) = insert k (fst ` set d)"
proof (induction d)
  case Nil
  then show ?case by simp
next
  case (Cons p d)
  obtain k' v' where p: "p = (k', v')" by (cases p)
  show ?case
  proof (cases "k' = k")
    case True
    with p show ?thesis by simp
  next
    case False
    with p Cons.IH show ?thesis by (simp add: insert_commute)
  qed
qed

lemma dict_set_distinct: "distinct (map fst d) \<Longrightarrow> distinct (map fst (dict_set d k v))"
proof (induction d)
  case Nil
  then show ?case by simp
next
  case (Cons p d)
  obtain k' v' where p: "p = (k', v')" by (cases p)
  show ?case
  proof (cases "k' = k")
    case True
    with p Cons.prems show ?thesis by simp
  next
    case False
    with p Cons show ?thesis by (simp add: dict_set_keys)
  qed
qed

lemma reducers_no_text:
  assumes "map_of df c = Some col" "no_text col"
  shows "\<exists>mx me mi. max_mag df c = Inr mx \<and> mean_mag df c = Inr me \<and> min_mag df c = Inr mi"
  using assms
  by (cases col rule: series_mean.cases) (auto simp: max_mag_def mean_mag_def min_mag_def getitem_def)

lemma calc_stats_loop_success:
  assumes "\<forall>b\<in>set bands. \<exists>df col. lc b = Some df \<and> map_of df c = Some col \<and> no_text col"
  shows "\<exists>stats'. calc_stats_loop lc bands c stats = Inr stats'
     \<and> fst ` set stats' = fst ` set stats \<union> set bands
     \<and> (distinct (map fst stats) \<longrightarrow> distinct (map fst stats'))
     \<and> (\<forall>b. b \<notin> set bands \<longrightarrow> map_of stats' b = map_of stats b)
     \<and> (\<forall>b\<in>set bands. \<forall>df. lc b = Some df \<longrightarrow>
           (\<exists>mx me mi. max_mag df c = Inr mx \<and> mean_mag df c = Inr me \<and> min_mag df c = Inr mi
              \<and> map_of stats' b = Some [(''max'', mx), (''mean'', me), (''min'', mi)]))"
  using assms
proof (induction bands arbitrary: stats)
  case Nil
  then show ?case by simp
next
  case (Cons b bands)
  from Cons.prems obtain df col where df: "lc b = Some df" "map_of df c = Some col" "no_text col"
    by auto
  from reducers_no_text [OF df(2,3)] obtain mx me mi where
    r: "max_mag df c = Inr mx" "mean_mag df c = Inr me" "min_mag df c = Inr mi"
    by blast
  let ?stat = "[(''max'', mx), (''mean'', me), (''min'', mi)]"
  let ?stats = "dict_set stats b ?stat"
  from Cons.prems have "\<forall>b\<in>set bands. \<exists>df col. lc b = Some df \<and> map_of df c = Some col \<and> no_text col"
    by simp
  from Cons.IH [OF this, of ?stats] obtain stats' where
    l: "calc_stats_loop lc bands c ?stats = Inr stats'"
    and k: "fst ` set stats' = fst ` set ?stats \<union> set bands"
    and d: "distinct (map fst ?stats) \<longrightarrow> distinct (map fst stats')"
    and o: "\<forall>b. b \<notin> set bands \<longrightarrow> map_of stats' b = map_of ?stats b"
    and e: "\<forall>b\<in>set bands. \<forall>df. lc b = Some df \<longrightarrow>
           (\<exists>mx me mi. max_mag df c = Inr mx \<and> mean_mag df c = Inr me \<and> min_mag df c = Inr mi
              \<and> map_of stats' b = Some [(''max'', mx), (''mean'', me), (''min'', mi)])"
    by blast
  have 1: "calc_stats_loop lc (b # bands) c stats = Inr stats'"
    using df(1) r l by simp
  have 2: "fst ` set stats' = fst ` set stats \<union> set (b # bands)"
    using k by (simp only: dict_set_keys) auto
  have 3: "distinct (map fst stats) \<longrightarrow> distinct (map fst stats')"
  proof
    assume "distinct (map fst stats)"
    then have "distinct (map fst ?stats)" by (rule dict_set_distinct)
    with d show "distinct (map fst stats')" by simp
  qed
  have 4: "\<forall>b'. b' \<notin> set (b # bands) \<longrightarrow> map_of stats' b' = map_of stats b'"
  proof (intro allI impI)
    fix b' assume n: "b' \<notin> set (b # bands)"
    then have "map_of stats' b' = map_of ?stats b'" using o by simp
    also have "\<dots> = map_of stats b'" using n by (simp add: dict_set_map_of)
    finally show "map_of stats' b' = map_of stats b'" .
  qed
  have 5: "\<exists>mx me mi. max_mag df' c = Inr mx \<and> mean_mag df' c = Inr me \<and> min_mag df' c = Inr mi
              \<and> map_of stats' b' = Some [(''max'', mx), (''mean'', me), (''min'', mi)]"
    if "b' \<in> set (b # bands)" "lc b' = Some df'" for b' df'
  proof (cases "b' \<in> set bands")
    case True
    with e that(2) show ?thesis by blast
  next
    case False
    with that(1) have b': "b' = b" by simp
    with that(2) df(1) have "df' = df" by simp
    moreover have "map_of stats' b = Some ?stat"
      using False o b' by (simp add: dict_set_map_of)
    ultimately show ?thesis using r b' by simp
  qed
  show ?case
  proof (intro exI [of _ stats'] conjI ballI allI impI)
    show "calc_stats_loop lc (b # bands) c stats = Inr stats'" by (rule 1)
    show "fst ` set stats' = fst ` set stats \<union> set (b # bands)" by (rule 2)
    show "distinct (map fst stats')" if "distinct (map fst stats)" using 3 that by simp
    show "map_of stats' b' = map_of stats b'" if "b' \<notin> set (b # bands)" for b'
      using 4 that by simp
    show "\<exists>mx me mi. max_mag df' c = Inr mx \<and> mean_mag df' c = Inr me \<and> min_mag df' c = Inr mi
              \<and> map_of stats' b' = Some [(''max'', mx), (''mean'', me), (''min'', mi)]"
      if "b' \<in> set (b # bands)" "lc b' = Some df'" for b' df'
      using that by (rule 5)
  qed
qed

lemma union_indexes_seen: "set ks \<subseteq> set seen \<Longrightarrow> union_indexes seen ks = seen"
  by (induction ks) auto

lemma union_indexes_stats:
  assumes "arrays \<noteq> []" "\<forall>d\<in>set arrays. map fst d = [''max'', ''mean'', ''min'']"
  shows "union_indexes [] (concat (map (map fst) arrays)) = [''max'', ''mean'', ''min'']"
proof (cases arrays)
  case Nil
  with assms(1) show ?thesis by simp
next
  case (Cons d ds)
  with assms(2) have d: "map fst d = [''max'', ''mean'', ''min'']"
    and ds: "set (concat (map (map fst) ds)) \<subseteq> set [''max'', ''mean'', ''min'']"
    by auto
  have "union_indexes [] (concat (map (map fst) arrays))
      = union_indexes [''max'', ''mean'', ''min''] (concat (map (map fst) ds))"
    by (simp add: Cons d)
  also have "\<dots> = [''max'', ''mean'', ''min'']"
    using ds by (rule union_indexes_seen)
  finally show ?thesis .
qed

lemma zip_map_self: "zip ks (map g (map f ks)) = map (\<lambda>k. (k, g (f k))) ks"
  by (induction ks) auto

lemma map_of_keyed: "map_of (map (\<lambda>k. (k, f k)) ks) k = (if k \<in> set ks then Some (f k) else None)"
  by (induction ks) auto

lemma sort_remdups:
  fixes ks bands :: "string list"
  assumes "distinct ks" "set ks = set bands"
  shows "sort ks = sort (remdups bands)"
  by (rule sorted_distinct_set_unique) (simp_all add: assms)


text \<open>
  Claim C1, as amended. For every mapping of band names to tables, every non-empty
  sequence of band names all present in the mapping, and every magnitude column that is
  present in each named table and holds no text, \<^verbatim>\<open>calc_stats\<close> returns a summary
  table whose rows are max, mean, min in this order and whose columns are the distinct
  requested band names in ascending order (the order given when the sequence is
  strictly ascending), where the entry at row s and band b is the corresponding reducer
  applied to the band's table and the magnitude column.
\<close>

theorem calc_stats_summary:
  assumes "bands \<noteq> []"
    and "\<forall>b\<in>set bands. \<exists>df col. lc b = Some df \<and> map_of df mag_col = Some col \<and> no_text col"
  shows "\<exists>S. calc_stats lc bands mag_col = Inr S
     \<and> index S = [''max'', ''mean'', ''min'']
     \<and> map fst (columns S) = sort (remdups bands)
     \<and> (sorted bands \<and> distinct bands \<longrightarrow> map fst (columns S) = bands)
     \<and> (\<forall>b\<in>set bands. \<forall>df. lc b = Some df \<longrightarrow>
           (\<exists>mx me mi. max_mag df mag_col = Inr mx \<and> mean_mag df mag_col = Inr me
              \<and> min_mag df mag_col = Inr mi
              \<and> map_of (columns S) b = Some [mx, me, mi]))"
proof -
  from calc_stats_loop_success [OF assms(2), of "[]"] obtain stats where
    l: "calc_stats_loop lc bands mag_col [] = Inr stats"
    and k: "fst ` set stats = set bands"
    and d: "distinct (map fst stats)"
    and e: "\<forall>b\<in>set bands. \<forall>df. lc b = Some df \<longrightarrow>
           (\<exists>mx me mi. max_mag df mag_col = Inr mx \<and> mean_mag df mag_col = Inr me
              \<and> min_mag df mag_col = Inr mi
              \<and> map_of stats b = Some [(''max'', mx), (''mean'', me), (''min'', mi)])"
    by auto
  let ?cols = "sort (map fst stats)"
  let ?get = "\<lambda>k. case map_of stats k of None \<Rightarrow> [] | Some d \<Rightarrow> d"
  let ?arrays = "map ?get ?cols"
  let ?idx = "[''max'', ''mean'', ''min'']"
  have cols: "?cols = sort (remdups bands)"
    using d k by (intro sort_remdups) simp_all
  have stat: "\<exists>mx me mi. ?get b = [(''max'', mx), (''mean'', me), (''min'', mi)]"
    if "b \<in> set bands" for b
  proof -
    from assms(2) that obtain df where "lc b = Some df" by blast
    with e that show ?thesis by fastforce
  qed
  have sc: "set ?cols = set bands" using k by simp
  have keys: "\<forall>a\<in>set ?arrays. map fst a = ?idx"
  proof
    fix a assume "a \<in> set ?arrays"
    then obtain b where "b \<in> set ?cols" "a = ?get b" by auto
    with sc stat [of b] obtain mx me mi where
      "a = [(''max'', mx), (''mean'', me), (''min'', mi)]" by auto
    then show "map fst a = ?idx" by simp
  qed
  from assms(1) have "set bands \<noteq> {}" by simp
  with sc have "?cols \<noteq> []" by (metis set_empty)
  then have ne: "?arrays \<noteq> []" by simp
  have idx: "union_indexes [] (concat (map (map fst) ?arrays)) = ?idx"
    using ne keys by (rule union_indexes_stats)
  let ?S = "from_records stats"
  have S: "?S = \<lparr> index = ?idx, columns = map (\<lambda>k. (k, multiget (?get k) ?idx)) ?cols \<rparr>"
    unfolding from_records_def Let_def idx by (simp only: zip_map_self)
  have 1: "calc_stats lc bands mag_col = Inr ?S" by (simp add: calc_stats_def l)
  have 2: "index ?S = ?idx" by (simp add: S)
  have 3: "map fst (columns ?S) = sort (remdups bands)"
    by (simp add: S o_def cols [symmetric])
  have 4: "map fst (columns ?S) = bands" if "sorted bands" "distinct bands"
    using 3 that by (simp add: sorted_sort_id distinct_remdups_id)
  have 5: "\<exists>mx me mi. max_mag df mag_col = Inr mx \<and> mean_mag df mag_col = Inr me
              \<and> min_mag df mag_col = Inr mi
              \<and> map_of (columns ?S) b = Some [mx, me, mi]"
    if "b \<in> set bands" "lc b = Some df" for b df
  proof -
    from e that obtain mx me mi where
      r: "max_mag df mag_col = Inr mx" "mean_mag df mag_col = Inr me" "min_mag df mag_col = Inr mi"
      and m: "map_of stats b = Some [(''max'', mx), (''mean'', me), (''min'', mi)]"
      by blast
    have "map_of (columns ?S) b = Some (multiget (?get b) ?idx)"
      using that(1) sc by (simp add: S map_of_keyed)
    also have "\<dots> = Some [mx, me, mi]"
      by (simp add: m multiget_def)
    finally show ?thesis using r by blast
  qed
  show ?thesis
  proof (intro exI [of _ ?S] conjI ballI allI impI)
    show "calc_stats lc bands mag_col = Inr ?S" by (rule 1)
    show "index ?S = ?idx" by (rule 2)
    show "map fst (columns ?S) = sort (remdups bands)" by (rule 3)
    show "map fst (columns ?S) = bands" if "sorted bands \<and> distinct bands"
      using that 4 by blast
    show "\<exists>mx me mi. max_mag df mag_col = Inr mx \<and> mean_mag df mag_col = Inr me
              \<and> min_mag df mag_col = Inr mi
              \<and> map_of (columns ?S) b = Some [mx, me, mi]"
      if "b \<in> set bands" "lc b = Some df" for b df
      using that by (rule 5)
  qed
qed


text \<open>The theorem at the three bands of the test suite, reduced on column b.\<close>

theorem calc_stats_summary_witness:
  "calc_stats
     [''df0'' \<mapsto> [(''a'', Numeric [Fin 8, Fin 0, Fin 2, Fin 7]),
                  (''b'', Numeric [Fin 8, Fin 1, Fin 3, Fin 9]),
                  (''c'', Numeric [Fin 0, Fin 1, Fin 1, Fin 7])],
      ''df1'' \<mapsto> [(''a'', Numeric [Fin 3, Fin 3, Fin 3, Fin 8]),
                  (''b'', Numeric [Fin 8, Fin 8, Fin 9, Fin 2]),
                  (''c'', Numeric [Fin 2, Fin 0, Fin 8, Fin 5])],
      ''df2'' \<mapsto> [(''a'', Numeric [Fin 8, Fin 7, Fin 4, Fin 6]),
                  (''b'', Numeric [Fin 4, Fin 6, Fin 2, Fin 4]),
                  (''c'', Numeric [Fin 3, Fin 3, Fin 9, Fin 0])]]
     [''df0'', ''df1'', ''df2''] ''b''
   = Inr \<lparr> index = [''max'', ''mean'', ''min''],
           columns =
             [(''df0'', [Number (Fin 9), Number (Fin (21 / 4)), Number (Fin 1)]),
              (''df1'', [Number (Fin 9), Number (Fin (27 / 4)), Number (Fin 2)]),
              (''df2'', [Number (Fin 6), Number (Fin 4), Number (Fin 2)])] \<rparr>"
proof -
  let ?lc = "[''df0'' \<mapsto> [(''a'', Numeric [Fin 8, Fin 0, Fin 2, Fin 7]),
                  (''b'', Numeric [Fin 8, Fin 1, Fin 3, Fin 9]),
                  (''c'', Numeric [Fin 0, Fin 1, Fin 1, Fin 7])],
      ''df1'' \<mapsto> [(''a'', Numeric [Fin 3, Fin 3, Fin 3, Fin 8]),
                  (''b'', Numeric [Fin 8, Fin 8, Fin 9, Fin 2]),
                  (''c'', Numeric [Fin 2, Fin 0, Fin 8, Fin 5])],
      ''df2'' \<mapsto> [(''a'', Numeric [Fin 8, Fin 7, Fin 4, Fin 6]),
                  (''b'', Numeric [Fin 4, Fin 6, Fin 2, Fin 4]),
                  (''c'', Numeric [Fin 3, Fin 3, Fin 9, Fin 0])]]"
  have h1: "[''df0'', ''df1'', ''df2''] \<noteq> []" by simp
  have h2: "\<forall>b\<in>set [''df0'', ''df1'', ''df2''].
      \<exists>df col. ?lc b = Some df \<and> map_of df ''b'' = Some col \<and> no_text col"
    by simp
  from calc_stats_summary [OF h1 h2] show ?thesis
    by (simp add: calc_stats_def max_mag_def mean_mag_def min_mag_def getitem_def nanmean_def
        putmask_def count_notna_def from_records_def multiget_def)
qed

text \<open>
  Claim C1 as stated fails for the band sequence r, g: the columns of the summary come in
  the order g, r, since \<^verbatim>\<open>from_records\<close> sorts the keys of the dict it is given.
\<close>

theorem calc_stats_summary_counterexample:
  "calc_stats
     [''r'' \<mapsto> [(''b'', Numeric [Fin 1, Fin 2])], ''g'' \<mapsto> [(''b'', Numeric [Fin 5, Fin 7])]]
     [''r'', ''g''] ''b''
   = Inr \<lparr> index = [''max'', ''mean'', ''min''],
           columns =
             [(''g'', [Number (Fin 7), Number (Fin 6), Number (Fin 5)]),
              (''r'', [Number (Fin 2), Number (Fin (3 / 2)), Number (Fin 1)])] \<rparr>"
  by (simp add: calc_stats_def max_mag_def mean_mag_def min_mag_def getitem_def nanmean_def
      putmask_def count_notna_def from_records_def multiget_def)

subsection \<open>A band that is missing from the mapping\<close>

lemma max_min_error:
  "max_mag df c = Inl e \<Longrightarrow> e = KeyError" "min_mag df c = Inl e \<Longrightarrow> e = KeyError"
proof -
  have mx: "series_max col \<noteq> Inl e'" for col e' by (cases col rule: series_max.cases) auto
  have mi: "series_min col \<noteq> Inl e'" for col e' by (cases col rule: series_min.cases) auto
  show "max_mag df c = Inl e \<Longrightarrow> e = KeyError"
    using mx by (auto simp: max_mag_def getitem_def split: option.splits)
  show "min_mag df c = Inl e \<Longrightarrow> e = KeyError"
    using mi by (auto simp: min_mag_def getitem_def split: option.splits)
qed

lemma mean_error:
  assumes "mean_mag df c = Inl e" "\<forall>col. map_of df c = Some col \<longrightarrow> no_text col"
  shows "e = KeyError"
proof (cases "map_of df c")
  case None
  with assms(1) show ?thesis by (simp add: mean_mag_def getitem_def)
next
  case (Some col)
  with assms(2) have "no_text col" by simp
  with assms(1) Some show ?thesis
    by (cases col rule: series_mean.cases) (auto simp: mean_mag_def getitem_def)
qed

lemma calc_stats_loop_missing:
  "b \<in> set bands \<Longrightarrow> lc b = None \<Longrightarrow> \<exists>e. calc_stats_loop lc bands c stats = Inl e"
proof (induction bands arbitrary: stats)
  case Nil
  then show ?case by simp
next
  case (Cons b' bands)
  show ?case
  proof (cases "lc b'")
    case None
    then show ?thesis by simp
  next
    case (Some df)
    with Cons.prems have "b \<in> set bands" by auto
    from Cons.IH [OF this Cons.prems(2)] Some show ?thesis
      by (auto split: sum.splits)
  qed
qed

lemma calc_stats_loop_KeyError:
  assumes "\<forall>b\<in>set bands. \<forall>df col. lc b = Some df \<and> map_of df c = Some col \<longrightarrow> no_text col"
    and "calc_stats_loop lc bands c stats = Inl e"
  shows "e = KeyError"
  using assms
proof (induction bands arbitrary: stats)
  case Nil
  then show ?case by simp
next
  case (Cons b' bands)
  show ?case
  proof (cases "lc b'")
    case None
    with Cons.prems(2) show ?thesis by simp
  next
    case (Some df)
    from Cons.prems(1) Some have nt: "\<forall>col. map_of df c = Some col \<longrightarrow> no_text col"
      by simp
    have rest:
      "\<forall>b\<in>set bands. \<forall>df col. lc b = Some df \<and> map_of df c = Some col \<longrightarrow> no_text col"
      using Cons.prems(1) by (meson list.set_intros(2))
    show ?thesis
    proof (cases "max_mag df c")
      case (Inl e1)
      with Cons.prems(2) Some max_min_error(1) [OF Inl] show ?thesis by simp
    next
      case mx: (Inr mx)
      show ?thesis
      proof (cases "mean_mag df c")
        case (Inl e2)
        with Cons.prems(2) Some mx mean_error [OF Inl nt] show ?thesis by simp
      next
        case me: (Inr me)
        show ?thesis
        proof (cases "min_mag df c")
          case (Inl e3)
          with Cons.prems(2) Some mx me max_min_error(2) [OF Inl] show ?thesis by simp
        next
          case mi: (Inr mi)
          with Cons.prems(2) Some mx me have
            "calc_stats_loop lc bands c
               (dict_set stats b' [(''max'', mx), (''mean'', me), (''min'', mi)]) = Inl e"
            by simp
          from Cons.IH [OF rest this] show ?thesis .
        qed
      qed
    qed
  qed
qed

text \<open>
  Claim C6, as amended. For every band-name sequence that contains a name absent from
  the band mapping, \<^verbatim>\<open>calc_stats\<close> fails: the whole call aborts with an error and
  returns no summary, the missing band is not skipped. The error is a lookup error
  (KeyError) whenever no named table holds text in the magnitude column; a band with
  such a column that comes earlier in the sequence raises its TypeError first.
\<close>

theorem calc_stats_missing_band:
  assumes "b \<in> set bands" and "lc b = None"
  shows "(\<exists>e. calc_stats lc bands mag_col = Inl e)
       \<and> ((\<forall>b'\<in>set bands. \<forall>df col. lc b' = Some df \<and> map_of df mag_col = Some col \<longrightarrow> no_text col)
            \<longrightarrow> calc_stats lc bands mag_col = Inl KeyError)"
proof -
  from calc_stats_loop_missing [of b bands lc mag_col "[]"] assms obtain e where
    e: "calc_stats_loop lc bands mag_col [] = Inl e" by blast
  then have 1: "calc_stats lc bands mag_col = Inl e" by (simp add: calc_stats_def)
  have "e = KeyError"
    if "\<forall>b'\<in>set bands. \<forall>df col. lc b' = Some df \<and> map_of df mag_col = Some col \<longrightarrow> no_text col"
    using that e by (rule calc_stats_loop_KeyError)
  with 1 show ?thesis by blast
qed

text \<open>The theorem at a mapping with the band g only, asked for the bands g and r.\<close>

theorem calc_stats_missing_band_witness:
  "calc_stats [''g'' \<mapsto> [(''b'', Numeric [Fin 5, Fin 7])]] [''g'', ''r''] ''b'' = Inl KeyError"
proof -
  let ?lc = "[''g'' \<mapsto> [(''b'', Numeric [Fin 5, Fin 7])]]"
  have h1: "''r'' \<in> set [''g'', ''r'']" by simp
  have h2: "?lc ''r'' = None" by simp
  have h3: "\<forall>b'\<in>set [''g'', ''r'']. \<forall>df col.
      ?lc b' = Some df \<and> map_of df ''b'' = Some col \<longrightarrow> no_text col"
    by auto
  from calc_stats_missing_band [of "''r''" "[''g'', ''r'']" ?lc "''b''"] h1 h2 h3
  show ?thesis by blast
qed

text \<open>
  Claim C6 as stated fails when a band with a text magnitude column precedes the missing
  band: the mean of the text column raises TypeError before the missing band is looked
  up, so the call fails, but not with a lookup error.
\<close>

theorem calc_stats_missing_band_counterexample:
  "[''g'' \<mapsto> [(''b'', Text [''x'', ''y''])]] ''r'' = None
 \<and> calc_stats [''g'' \<mapsto> [(''b'', Text [''x'', ''y''])]] [''g'', ''r''] ''b'' = Inl TypeError"
  by (simp add: calc_stats_def max_mag_def mean_mag_def min_mag_def getitem_def)

end
